theory Spec2Isabelle
  imports Main "HOL-Library.Word"
begin

unbundle bit_operations_syntax

section \<open>The XMM6260 firmware loader (modem-ctl.c)\<close>

text \<open>
  The loader targets the Samsung I9100, a 32-bit ARM (little-endian) device: \<open>size_t\<close>
  is an unsigned 32-bit word, \<open>int\<close> and \<open>ssize_t\<close> are signed 32-bit. Values returned
  by system calls are kept as mathematical integers (they are small); every place where
  the source stores one into an unsigned variable converts it with \<open>word_of_int\<close>, which
  wraps around as the C conversion does.
\<close>

type_synonym byte = "8 word"
type_synonym size_t = "32 word"

subsection \<open>Firmware layout\<close>

text \<open>\<open>#define RADIO_MAP_SIZE (16 << 20)\<close>\<close>

definition RADIO_MAP_SIZE :: nat where
  "RADIO_MAP_SIZE = push_bit 20 16"

datatype xmm6260_image = PSI | EBL | SECURE_IMAGE | FIRMWARE | NVDATA

text \<open>
  \<open>struct xmm6260_offset { size_t offset; size_t length; }\<close>; the field \<open>length\<close>
  is written \<open>length_sz\<close> because \<open>length\<close> is the list function of HOL.
\<close>

record xmm6260_offset =
  offset :: size_t
  length_sz :: size_t

fun i9100_radio_parts :: "xmm6260_image \<Rightarrow> xmm6260_offset" where
  "i9100_radio_parts PSI = \<lparr>offset = 0, length_sz = 0xf000\<rparr>"
| "i9100_radio_parts EBL = \<lparr>offset = 0xf000, length_sz = 0x19000\<rparr>"
| "i9100_radio_parts SECURE_IMAGE = \<lparr>offset = 0x9ff800, length_sz = 0x800\<rparr>"
| "i9100_radio_parts FIRMWARE = \<lparr>offset = 0x28000, length_sz = 0x9d8000\<rparr>"
| "i9100_radio_parts NVDATA = \<lparr>offset = 0x6406e00, length_sz = push_bit 20 2\<rparr>"

subsection \<open>The PSI header\<close>

definition XMM_PSI_MAGIC :: byte where
  "XMM_PSI_MAGIC = 0x30"

text \<open>
  \<open>psi_header_t\<close>: a packed struct of a \<open>uint8_t\<close>, a \<open>uint16_t\<close> and a \<open>uint8_t\<close>
  (the field \<open>length\<close> is written \<open>length_u16\<close>).
\<close>

record psi_header_t =
  magic :: byte
  length_u16 :: "16 word"
  padding :: byte

text \<open>
  The initialiser of \<open>hdr\<close> in \<open>send_PSI\<close>:
  \<open>{ .magic = XMM_PSI_MAGIC, .length = length }\<close>. The \<open>size_t\<close> value is converted
  to \<open>uint16_t\<close> by the assignment (\<open>ucast\<close> keeps the low 16 bits); the field that the
  initialiser does not name is zero.
\<close>

definition psi_header_init :: "size_t \<Rightarrow> psi_header_t" where
  "psi_header_init len = \<lparr>magic = XMM_PSI_MAGIC, length_u16 = ucast len, padding = 0\<rparr>"

text \<open>The four bytes of the packed header as \<open>write\<close> sees them (little-endian).\<close>

definition psi_header_bytes :: "psi_header_t \<Rightarrow> byte list" where
  "psi_header_bytes h =
     [magic h, ucast (length_u16 h), ucast (drop_bit 8 (length_u16 h)), padding h]"

subsection \<open>The world outside the program\<close>

text \<open>
  The symbolic request codes of \<open>modem_prj.h\<close> that the loader uses (the header is not
  part of the sources; only the names matter here).
\<close>

datatype ioctl_code =
    IOCTL_LINK_CONTROL_ENABLE
  | IOCTL_LINK_CONTROL_ACTIVE
  | IOCTL_LINK_CONNECTED
  | IOCTL_MODEM_ON
  | IOCTL_MODEM_OFF

text \<open>What one call of \<open>read\<close> does: it fails with -1, or it delivers some bytes.\<close>

datatype rd = RdErr | RdData "byte list"

text \<open>
  The buffer handed to \<open>write\<close>: literal bytes held by the program, or the mapped
  radio image from a given index on (\<open>radio_data + start\<close>).
\<close>

datatype wsrc = Bytes "byte list" | Image size_t

datatype level = D | E | I

text \<open>
  Everything the program does to its environment, in order. A \<open>Write\<close> records the
  descriptor, the buffer, the requested count and the result; an \<open>Ioctl\<close> the
  descriptor, the request, the argument behind the data pointer (if any) and the
  result; a \<open>Select\<close> the descriptor, the timeout in milliseconds and the result;
  a \<open>Log\<close> the macro (\<open>_d\<close>, \<open>_e\<close>, \<open>_i\<close>) and its format string.
\<close>

datatype event =
    Open string int
  | Fstat int int
  | Mmap int nat int
  | Ioctl int ioctl_code "nat option" int
  | Write int wsrc size_t int
  | Select int nat int
  | Read int nat rd
  | Close int
  | Munmap int nat
  | Usleep nat
  | Log level string

text \<open>
  The state: the answers the kernel will give (\<open>rets\<close> for successive calls of
  \<open>open\<close>, \<open>fstat\<close>, \<open>mmap\<close>, \<open>ioctl\<close>, \<open>select\<close> and \<open>write\<close>, in program
  order; \<open>reads\<close> for successive calls of \<open>read\<close>), the contents of the mapped image,
  the indeterminate contents of uninitialised automatic variables (\<open>junk_int\<close> for
  an \<open>int\<close>, \<open>junk_buf\<close> for a byte buffer), the trace of events so far, and the four
  file-scope variables of the program.
\<close>

record world =
  rets :: "int list"
  reads :: "rd list"
  image :: "nat \<Rightarrow> byte"
  junk_int :: int
  junk_buf :: "nat \<Rightarrow> byte"
  trace :: "event list"
  link_fd :: int
  boot_fd :: int
  radio_fd :: int
  radio_data :: int

text \<open>
  The state at program start: objects of static storage duration are zero, so the three
  descriptors are 0 and \<open>radio_data\<close> is the null pointer.
\<close>

definition initial_world :: "int list \<Rightarrow> rd list \<Rightarrow> (nat \<Rightarrow> byte) \<Rightarrow> int \<Rightarrow> (nat \<Rightarrow> byte) \<Rightarrow> world" where
  "initial_world rs ds img ji jb =
     \<lparr>rets = rs, reads = ds, image = img, junk_int = ji, junk_buf = jb, trace = [],
      link_fd = 0, boot_fd = 0, radio_fd = 0, radio_data = 0\<rparr>"

text \<open>\<open>MAP_FAILED\<close> is \<open>(void *) -1\<close>.\<close>

definition MAP_FAILED :: int where
  "MAP_FAILED = - 1"

text \<open>
  A computation takes the world and returns a value and the new world. It returns
  \<open>None\<close> when the supplied answers run out before the computation has finished: the
  answer lists are the fuel of the two unbounded loops of the program.
\<close>

type_synonym 'a io = "world \<Rightarrow> ('a \<times> world) option"

definition return_io :: "'a \<Rightarrow> 'a io" where
  "return_io x = (\<lambda>w. Some (x, w))"

definition bind_io :: "'a io \<Rightarrow> ('a \<Rightarrow> 'b io) \<Rightarrow> 'b io" where
  "bind_io m f = (\<lambda>w. case m w of None \<Rightarrow> None | Some (x, w') \<Rightarrow> f x w')"

definition then_io :: "'a io \<Rightarrow> 'b io \<Rightarrow> 'b io" where
  "then_io m n = bind_io m (\<lambda>_. n)"

definition emit :: "event \<Rightarrow> unit io" where
  "emit e = (\<lambda>w. Some ((), w\<lparr>trace := trace w @ [e]\<rparr>))"

definition next_ret :: "int io" where
  "next_ret = (\<lambda>w. case rets w of [] \<Rightarrow> None | r # rs \<Rightarrow> Some (r, w\<lparr>rets := rs\<rparr>))"

definition next_read :: "rd io" where
  "next_read = (\<lambda>w. case reads w of [] \<Rightarrow> None | d # ds \<Rightarrow> Some (d, w\<lparr>reads := ds\<rparr>))"

definition get :: "(world \<Rightarrow> 'a) \<Rightarrow> 'a io" where
  "get f = (\<lambda>w. Some (f w, w))"

definition modify :: "(world \<Rightarrow> world) \<Rightarrow> unit io" where
  "modify f = (\<lambda>w. Some ((), f w))"

text \<open>The logging macros \<open>_d\<close>, \<open>_e\<close> and \<open>_i\<close>.\<close>

definition log_d :: "string \<Rightarrow> unit io" where
  "log_d fmt = emit (Log D fmt)"

definition log_e :: "string \<Rightarrow> unit io" where
  "log_e fmt = emit (Log E fmt)"

definition log_i :: "string \<Rightarrow> unit io" where
  "log_i fmt = emit (Log I fmt)"

subsection \<open>System calls\<close>

definition sys_open :: "string \<Rightarrow> int io" where
  "sys_open path = bind_io next_ret (\<lambda>r. then_io (emit (Open path r)) (return_io r))"

definition sys_fstat :: "int \<Rightarrow> int io" where
  "sys_fstat fd = bind_io next_ret (\<lambda>r. then_io (emit (Fstat fd r)) (return_io r))"

definition sys_mmap :: "int \<Rightarrow> nat \<Rightarrow> int io" where
  "sys_mmap fd len = bind_io next_ret (\<lambda>r. then_io (emit (Mmap fd len r)) (return_io r))"

definition sys_ioctl :: "int \<Rightarrow> ioctl_code \<Rightarrow> nat option \<Rightarrow> int io" where
  "sys_ioctl fd code arg =
     bind_io next_ret (\<lambda>r. then_io (emit (Ioctl fd code arg r)) (return_io r))"

definition sys_select :: "int \<Rightarrow> nat \<Rightarrow> int io" where
  "sys_select fd timeout =
     bind_io next_ret (\<lambda>r. then_io (emit (Select fd timeout r)) (return_io r))"

text \<open>
  \<open>write(fd, buf, count)\<close> returns -1, or the number of bytes accepted, which is at
  most \<open>count\<close>.
\<close>

definition sys_write :: "int \<Rightarrow> wsrc \<Rightarrow> size_t \<Rightarrow> int io" where
  "sys_write fd src count =
     bind_io next_ret (\<lambda>r.
       let res = (if r < 0 then - 1 else min r (uint count)) in
       then_io (emit (Write fd src count res)) (return_io res))"

text \<open>
  \<open>read(fd, buf, size)\<close> returns -1 and stores nothing, or stores at most \<open>size\<close>
  bytes at the start of the buffer and returns their number. The model returns the
  result together with the bytes stored.
\<close>

definition sys_read :: "int \<Rightarrow> nat \<Rightarrow> (int \<times> byte list) io" where
  "sys_read fd size_n =
     bind_io next_read (\<lambda>d.
       then_io (emit (Read fd size_n d))
         (case d of
            RdErr \<Rightarrow> return_io (- 1, [])
          | RdData bs \<Rightarrow> return_io (int (length (take size_n bs)), take size_n bs)))"

definition sys_close :: "int \<Rightarrow> unit io" where
  "sys_close fd = emit (Close fd)"

definition sys_munmap :: "int \<Rightarrow> nat \<Rightarrow> unit io" where
  "sys_munmap addr len = emit (Munmap addr len)"

definition usleep :: "nat \<Rightarrow> unit io" where
  "usleep us = emit (Usleep us)"

subsection \<open>IO helper functions\<close>

definition c_ioctl :: "int \<Rightarrow> ioctl_code \<Rightarrow> nat option \<Rightarrow> int io" where
  "c_ioctl fd code data =
     bind_io (sys_ioctl fd code data) (\<lambda>ret.
       then_io
         (if ret < 0 then log_e ''ioctl fd=%d code=%lx failed: %s''
          else log_d ''ioctl fd=%d code=%lx OK'')
         (return_io ret))"

text \<open>
  \<open>read_select\<close> turns the timeout into a \<open>struct timeval\<close> and waits with
  \<open>select\<close> for the descriptor to become readable.
\<close>

definition read_select :: "int \<Rightarrow> nat \<Rightarrow> int io" where
  "read_select fd timeout = sys_select fd timeout"

definition receive :: "int \<Rightarrow> nat \<Rightarrow> (int \<times> byte list) io" where
  "receive fd size_n =
     bind_io (read_select fd 0) (\<lambda>ret.
       if ret < 0 then
         then_io (log_e ''%s: failed to select the fd %d'') (return_io (ret, []))
       else
         then_io (log_d ''%s: selected fd %d for %d'') (sys_read fd size_n))"

text \<open>
  \<open>memcmp\<close> over the first \<open>size\<close> bytes. The C standard fixes only the sign of a
  non-zero result; as the usual implementations do, the model returns the difference
  of the first two bytes that differ, both read as \<open>unsigned char\<close>.
\<close>

fun memcmp_bytes :: "byte list \<Rightarrow> byte list \<Rightarrow> int" where
  "memcmp_bytes (a # as) (b # bs) =
     (if a = b then memcmp_bytes as bs else uint a - uint b)"
| "memcmp_bytes _ _ = 0"

definition memcmp :: "byte list \<Rightarrow> byte list \<Rightarrow> nat \<Rightarrow> int" where
  "memcmp buf data size_n = memcmp_bytes (take size_n buf) (take size_n data)"

text \<open>
  \<open>expect_data\<close>: \<open>buf\<close> is an uninitialised array of \<open>size\<close> bytes; the bytes that
  \<open>receive\<close> stored replace its beginning, the rest keeps its indeterminate contents.
\<close>

definition expect_data :: "int \<Rightarrow> byte list \<Rightarrow> nat \<Rightarrow> int io" where
  "expect_data fd data size_n =
     bind_io (get (\<lambda>w. map (junk_buf w) [0..<size_n])) (\<lambda>buf0.
     bind_io (receive fd size_n) (\<lambda>(ret, got).
       if ret < 0 then
         then_io (log_e ''failed to receive data'') (return_io ret)
       else
         let buf = got @ drop (length got) buf0;
             ret = memcmp buf data size_n
         in then_io (if ret \<noteq> 0 then log_d ''received %02x'' else return_io ())
              (return_io ret)))"

subsection \<open>I9100 specific implementation\<close>

definition LINK_PM :: string where
  "LINK_PM = ''/dev/link_pm''"

definition BOOT_DEV :: string where
  "BOOT_DEV = ''/dev/umts_boot0''"

definition RADIO_IMAGE :: string where
  "RADIO_IMAGE = ''/dev/block/mmcblk0p8''"

definition I9100_EHCI_PATH :: string where
  "I9100_EHCI_PATH = ''/sys/devices/platform/s5p-ehci/ehci_power''"

text \<open>
  \<open>i9100_ehci_setpower\<close>: \<open>ret\<close> is declared without an initialiser, and the jump to
  \<open>fail\<close> after a failed \<open>open\<close> returns it as it is. The character written is
  \<open>'1'\<close> (0x31) or \<open>'0'\<close> (0x30).
\<close>

definition i9100_ehci_setpower :: "bool \<Rightarrow> int io" where
  "i9100_ehci_setpower enabled =
     bind_io (get junk_int) (\<lambda>ret0.
     then_io (log_d ''%s: enabled=%d'')
    (bind_io (sys_open I9100_EHCI_PATH) (\<lambda>ehci_fd.
     bind_io
       (if ehci_fd < 0 then
          then_io (log_e ''failed to open EHCI fd'') (return_io ret0)
        else
          then_io (log_d ''opened EHCI %s: fd=%d'')
         (bind_io (sys_write ehci_fd (Bytes [if enabled then 0x31 else 0x30]) 1) (\<lambda>ret.
          then_io
            (if ret \<le> 0 then log_e ''failed to set EHCI power''
             else log_d ''set EHCI power'')
            (return_io ret))))
       (\<lambda>ret.
          then_io (if ehci_fd \<ge> 0 then sys_close ehci_fd else return_io ())
            (return_io ret)))))"

text \<open>\<open>unsigned status = enabled\<close> is 1 or 0.\<close>

definition i9100_link_set_active :: "bool \<Rightarrow> int io" where
  "i9100_link_set_active enabled =
     (let status = (if enabled then 1 else 0 :: nat) in
      bind_io (get link_fd) (\<lambda>fd.
      bind_io (c_ioctl fd IOCTL_LINK_CONTROL_ENABLE (Some status)) (\<lambda>ret.
        if ret < 0 then
          then_io (log_d ''failed to set link state to %d'') (return_io ret)
        else
          bind_io (c_ioctl fd IOCTL_LINK_CONTROL_ACTIVE (Some status)) (\<lambda>ret.
            if ret < 0 then
              then_io (log_d ''failed to set link active to %d'') (return_io ret)
            else return_io 0))))"

text \<open>
  \<open>i9100_wait_link_ready\<close> polls without a bound; each poll takes one answer from
  \<open>rets\<close>, so the model stops with \<open>None\<close> when the answers are used up.
\<close>

function i9100_wait_link_ready :: "int io" where
  "i9100_wait_link_ready w =
     (case c_ioctl (link_fd w) IOCTL_LINK_CONNECTED None w of
        None \<Rightarrow> None
      | Some (ret, w1) \<Rightarrow>
          if ret < 0 then Some (ret, w1)
          else if ret = 1 then Some (0, w1)
          else (case usleep (50 * 1000) w1 of
                  None \<Rightarrow> None
                | Some (u, w2) \<Rightarrow> i9100_wait_link_ready w2))"
  by pat_completeness auto
termination
  by (relation "measure (\<lambda>w. length (rets w))")
     (auto simp: c_ioctl_def sys_ioctl_def usleep_def log_e_def log_d_def emit_def
        next_ret_def bind_io_def then_io_def return_io_def
        split: list.splits if_splits)

definition xmm6260_setpower :: "bool \<Rightarrow> int io" where
  "xmm6260_setpower enabled =
     bind_io (get boot_fd) (\<lambda>fd.
       if enabled then c_ioctl fd IOCTL_MODEM_ON None
       else c_ioctl fd IOCTL_MODEM_OFF None)"

subsection \<open>The checksum\<close>

text \<open>
  \<open>calculateCRC\<close>: \<open>data\<close> is the memory behind the pointer, indexed from it; the loop
  \<open>while (length--) crc ^= *ptr++\<close> runs \<open>length\<close> times.
\<close>

fun calculateCRC_loop :: "(nat \<Rightarrow> byte) \<Rightarrow> nat \<Rightarrow> nat \<Rightarrow> byte \<Rightarrow> byte" where
  "calculateCRC_loop data ptr 0 crc = crc"
| "calculateCRC_loop data ptr (Suc n) crc =
     calculateCRC_loop data (Suc ptr) n (crc XOR data ptr)"

definition calculateCRC :: "(nat \<Rightarrow> byte) \<Rightarrow> size_t \<Rightarrow> size_t \<Rightarrow> byte" where
  "calculateCRC data off len = calculateCRC_loop data (unat off) (unat len) 0"

subsection \<open>Uploading the PSI\<close>

text \<open>How a block of statements ends: it runs to its end, or it jumps to \<open>fail\<close>.\<close>

datatype flow = Fallthrough | Goto_fail

text \<open>
  The payload loop of \<open>send_PSI\<close>:
  \<^verbatim>\<open>while (start < end) {
    size_t written = write(fd, radio_data + start, end - offset);
    if (written < 0) { _d("failed to write PSI chunk"); goto fail; }
    start += written;
  }\<close>
  \<open>written\<close> is a \<open>size_t\<close>: the result of \<open>write\<close> is converted to it, and the test
  and the addition are those of unsigned 32-bit words.
\<close>

function psi_write_loop :: "int \<Rightarrow> size_t \<Rightarrow> size_t \<Rightarrow> size_t \<Rightarrow> flow io" where
  "psi_write_loop fd off start end' w =
     (if start < end' then
        (case sys_write fd (Image start) (end' - off) w of
           None \<Rightarrow> None
         | Some (r, w1) \<Rightarrow>
             (let written = (word_of_int r :: size_t) in
              if written < 0 then
                then_io (log_d ''failed to write PSI chunk'') (return_io Goto_fail) w1
              else psi_write_loop fd off (start + written) end' w1))
      else Some (Fallthrough, w))"
  by pat_completeness auto
termination
  by (relation "measure (\<lambda>(fd, off, start, e, w). length (rets w))")
     (auto simp: sys_write_def emit_def next_ret_def bind_io_def then_io_def
        return_io_def Let_def split: list.splits if_splits)

text \<open>
  The drain loop of \<open>send_PSI\<close>:
  \<^verbatim>\<open>for (int i = 0; i < 22; i++) {
    char ack;
    if (receive(fd, &ack, 1) < 1) { _d("failed to read ACK byte %d", i); goto fail; }
    _d("%02x ", ack);
  }\<close>
\<close>

function psi_ack_loop :: "int \<Rightarrow> nat \<Rightarrow> flow io" where
  "psi_ack_loop fd i w =
     (if i < 22 then
        (case receive fd 1 w of
           None \<Rightarrow> None
         | Some ((r, got), w1) \<Rightarrow>
             if r < 1 then
               then_io (log_d ''failed to read ACK byte %d'') (return_io Goto_fail) w1
             else
               (case log_d ''%02x '' w1 of
                  None \<Rightarrow> None
                | Some (u, w2) \<Rightarrow> psi_ack_loop fd (i + 1) w2))
      else Some (Fallthrough, w))"
  by pat_completeness auto
termination
  by (relation "measure (\<lambda>(fd, i, w). 22 - i)") auto

text \<open>
  \<open>send_PSI\<close> returns 0 at its end and \<open>ret\<close> at the label \<open>fail\<close>; \<open>ret\<close> holds
  the result of the last call that was assigned to it.
\<close>

definition send_PSI :: "int \<Rightarrow> int io" where
  "send_PSI fd =
     (let len = length_sz (i9100_radio_parts PSI);
          off = offset (i9100_radio_parts PSI);
          hdr = psi_header_init len
      in
      bind_io (sys_write fd (Bytes (psi_header_bytes hdr)) 4) (\<lambda>ret.
        if ret \<noteq> 4 then
          then_io (log_d ''%s: failed to write header, ret %d'') (return_io ret)
        else
          let start = off; end' = len + start in
          then_io (log_d ''PSI image [%08x %08x %08x %08x]'')
         (bind_io (psi_write_loop fd off start end') (\<lambda>f.
          case f of
            Goto_fail \<Rightarrow> return_io ret
          | Fallthrough \<Rightarrow>
          bind_io (get (\<lambda>w. calculateCRC (image w) off len)) (\<lambda>crc.
          bind_io (sys_write fd (Bytes [crc]) 1) (\<lambda>ret.
            if ret < 1 then
              then_io (log_d ''failed to write CRC'') (return_io ret)
            else
          bind_io (psi_ack_loop fd 0) (\<lambda>f.
          case f of
            Goto_fail \<Rightarrow> return_io ret
          | Fallthrough \<Rightarrow>
          bind_io (expect_data fd [0x1] 1) (\<lambda>ret.
            if ret < 0 then
              then_io (log_d ''failed to wait for first ACK'') (return_io ret)
            else
          bind_io (expect_data fd [0x1] 1) (\<lambda>ret.
            if ret < 0 then
              then_io (log_d ''failed to wait for second ACK'') (return_io ret)
            else return_io 0)))))))))"

subsection \<open>The orchestrator\<close>

text \<open>
  \<open>main\<close> is one function in the source; the model cuts it at its own comments into
  the blocks \<open>main_open\<close> (lines 394-431), \<open>main_disable\<close> (437-456, "Disable the
  hardware to ensure consistent state"), \<open>main_init\<close> (462-493, "Now, initialize the
  hardware"), \<open>main_load\<close> (498-529, "Now, actually load the firmware") and
  \<open>main_cleanup\<close> (the statements after the label \<open>fail\<close>, 540-554).
\<close>

definition main_open :: "flow io" where
  "main_open =
     bind_io (sys_open RADIO_IMAGE) (\<lambda>fd.
     then_io (modify (\<lambda>w. w\<lparr>radio_fd := fd\<rparr>))
       (if fd < 0 then
          then_io (log_e ''failed to open radio firmware'') (return_io Goto_fail)
        else
     then_io (log_d ''opened radio image %s, fd=%d'')
    (bind_io (sys_fstat fd) (\<lambda>r.
        if r < 0 then
          then_io (log_e ''failed to stat radio image, error %s'') (return_io Goto_fail)
        else
     bind_io (sys_mmap fd RADIO_MAP_SIZE) (\<lambda>p.
     then_io (modify (\<lambda>w. w\<lparr>radio_data := p\<rparr>))
       (if p = MAP_FAILED then
          then_io (log_e ''failed to mmap radio image, error %s'') (return_io Goto_fail)
        else
     bind_io (sys_open BOOT_DEV) (\<lambda>fd.
     then_io (modify (\<lambda>w. w\<lparr>boot_fd := fd\<rparr>))
       (if fd < 0 then
          then_io (log_e ''failed to open boot device'') (return_io Goto_fail)
        else
     then_io (log_d ''opened boot device %s, fd=%d'')
    (bind_io (sys_open LINK_PM) (\<lambda>fd.
     then_io (modify (\<lambda>w. w\<lparr>link_fd := fd\<rparr>))
       (if fd < 0 then
          then_io (log_e ''failed to open link device'') (return_io Goto_fail)
        else
     then_io (log_d ''opened link device %s, fd=%d'') (return_io Fallthrough))))))))))))"

definition main_disable :: "unit io" where
  "main_disable =
     bind_io (xmm6260_setpower False) (\<lambda>r.
     then_io
       (if r < 0 then log_e ''failed to disable xmm6260 power''
        else log_d ''disabled xmm6260 power'')
    (bind_io (i9100_link_set_active False) (\<lambda>r.
     then_io
       (if r < 0 then log_e ''failed to disable I9100 HSIC link''
        else log_d ''disabled I9100 HSIC link'')
    (bind_io (i9100_ehci_setpower False) (\<lambda>r.
       if r < 0 then log_e ''failed to disable I9100 EHCI''
       else log_d ''disabled I9100 EHCI'')))))"

definition main_init :: "flow io" where
  "main_init =
     bind_io (i9100_link_set_active True) (\<lambda>r.
     then_io
       (if r < 0 then log_e ''failed to enable I9100 HSIC link''
        else log_d ''enabled I9100 HSIC link'')
    (bind_io (i9100_ehci_setpower True) (\<lambda>r.
        if r < 0 then
          then_io (log_e ''failed to enable I9100 EHCI'') (return_io Goto_fail)
        else
     then_io (log_d ''enabled I9100 EHCI'')
    (bind_io (xmm6260_setpower True) (\<lambda>r.
        if r < 0 then
          then_io (log_e ''failed to enable xmm6260 power'') (return_io Goto_fail)
        else
     then_io (log_d ''enabled xmm6260 power'')
    (bind_io i9100_wait_link_ready (\<lambda>r.
        if r < 0 then
          then_io (log_e ''failed to wait for link to get ready'') (return_io Goto_fail)
        else
     then_io (log_d ''link ready'')
    (then_io (usleep (500 * 1000)) (return_io Fallthrough)))))))))"

text \<open>The bytes of \<open>"ATAT"\<close>.\<close>

definition ATAT :: "byte list" where
  "ATAT = [0x41, 0x54, 0x41, 0x54]"

definition main_load :: "flow io" where
  "main_load =
     bind_io (get boot_fd) (\<lambda>fd.
     bind_io (sys_write fd (Bytes ATAT) 4) (\<lambda>r.
        if r \<noteq> 4 then
          then_io (log_e ''failed to write ATAT to boot socket'') (return_io Goto_fail)
        else
     then_io (log_d ''written ATAT to boot socket, waiting for ACK'')
    (then_io (usleep (500 * 1000))
    (bind_io (receive fd 1) (\<lambda>(r, b0).
        if r < 0 then
          then_io (log_e ''failed to receive bootloader ACK'') (return_io Goto_fail)
        else
     bind_io (receive fd 1) (\<lambda>(r, b1).
        if r < 0 then
          then_io (log_e ''failed to receive chip IP ACK'') (return_io Goto_fail)
        else
     then_io (log_i ''receive ID: [%02x %02x]'')
    (bind_io (send_PSI fd) (\<lambda>r.
        if r < 0 then
          then_io (log_e ''failed to upload PSI'') (return_io Goto_fail)
        else
     bind_io (expect_data fd [0x00, 0xAA] 2) (\<lambda>r.
        if r < 0 then
          then_io (log_e ''failed to receive PSI ACK'') (return_io Goto_fail)
        else return_io Fallthrough)))))))))"

definition main_cleanup :: "unit io" where
  "main_cleanup =
     bind_io (get radio_data) (\<lambda>p.
     then_io (if p \<noteq> MAP_FAILED then sys_munmap p RADIO_MAP_SIZE else return_io ())
    (bind_io (get link_fd) (\<lambda>fd.
     then_io (if fd \<ge> 0 then sys_close fd else return_io ())
    (bind_io (get radio_fd) (\<lambda>fd.
     then_io (if fd \<ge> 0 then sys_close fd else return_io ())
    (bind_io (get boot_fd) (\<lambda>fd.
       if fd \<ge> 0 then sys_close fd else return_io ())))))))"

text \<open>
  Everything of \<open>main\<close> before the label \<open>fail\<close>: \<open>Goto_fail\<close> when one of the
  \<open>goto fail\<close> statements was taken, \<open>Fallthrough\<close> when control reached the label
  from the last statement.
\<close>

definition main_body :: "flow io" where
  "main_body =
     bind_io main_open (\<lambda>f.
       case f of
         Goto_fail \<Rightarrow> return_io Goto_fail
       | Fallthrough \<Rightarrow>
           then_io main_disable
             (bind_io main_init (\<lambda>f.
                case f of
                  Goto_fail \<Rightarrow> return_io Goto_fail
                | Fallthrough \<Rightarrow> main_load)))"

definition main :: "int io" where
  "main = bind_io main_body (\<lambda>f. then_io main_cleanup (return_io 0))"

subsection \<open>Reading traces\<close>

text \<open>The calls of \<open>write\<close> on a given descriptor.\<close>

fun is_write_to :: "int \<Rightarrow> event \<Rightarrow> bool" where
  "is_write_to fd (Write f src n r) = (f = fd)"
| "is_write_to fd e = False"

text \<open>The messages of the error macro \<open>_e\<close>.\<close>

fun is_error_log :: "event \<Rightarrow> bool" where
  "is_error_log (Log E fmt) = True"
| "is_error_log e = False"

text \<open>
  The image bytes that a call of \<open>write\<close> has put on the channel: the \<open>r\<close> bytes
  it accepted, from the index the buffer starts at (none when it failed).
\<close>

fun payload_sent :: "(nat \<Rightarrow> byte) \<Rightarrow> event \<Rightarrow> byte list" where
  "payload_sent img (Write f (Image s) n r) = map img [unat s ..< unat s + nat r]"
| "payload_sent img e = []"

text \<open>The bytes of a component in the image: the range \<open>[offset, offset + length)\<close>.\<close>

definition component_bytes :: "(nat \<Rightarrow> byte) \<Rightarrow> xmm6260_image \<Rightarrow> byte list" where
  "component_bytes img c =
     map img [unat (offset (i9100_radio_parts c)) ..<
              unat (offset (i9100_radio_parts c)) + unat (length_sz (i9100_radio_parts c))]"

text \<open>
  The checksum as the specification words it:
  \<open>crc = 0; for each byte b in payload: crc ^= b\<close>.
\<close>

definition xor_checksum :: "byte list \<Rightarrow> byte" where
  "xor_checksum payload = fold (\<lambda>b crc. crc XOR b) payload 0"

subsection \<open>Scenarios\<close>

text \<open>An image of zero bytes, and a stack that holds zero bytes.\<close>

definition zero_bytes :: "nat \<Rightarrow> byte" where
  "zero_bytes = (\<lambda>i. 0)"

text \<open>The radio image cannot be opened: the first \<open>open\<close> returns -1.\<close>

definition no_radio_image :: world where
  "no_radio_image = initial_world [- 1] [] zero_bytes 0 zero_bytes"

text \<open>
  The answers of a bring-up in which every call succeeds: the three files open as
  descriptors 3 (radio image), 4 (boot device) and 5 (link device), the image is mapped
  at 0x40000000, every ioctl returns 0, the EHCI file opens as descriptor 6 and takes
  its byte, and the first poll reports the link as connected.
\<close>

definition bring_up_ok :: "int list" where
  "bring_up_ok = [3, 0, 0x40000000, 4, 5,  0, 0, 0, 6, 1,  0, 0, 6, 1, 0, 1]"

text \<open>The answers of the 22 \<open>select\<close> calls and 22 \<open>read\<close> calls of the drain loop.\<close>

definition drain_selects :: "int list" where
  "drain_selects = [1, 1, 1, 1, 1, 1, 1, 1, 1, 1, 1, 1, 1, 1, 1, 1, 1, 1, 1, 1, 1, 1]"

definition drain_reads :: "rd list" where
  "drain_reads =
     [RdData [0], RdData [0], RdData [0], RdData [0], RdData [0], RdData [0],
      RdData [0], RdData [0], RdData [0], RdData [0], RdData [0], RdData [0],
      RdData [0], RdData [0], RdData [0], RdData [0], RdData [0], RdData [0],
      RdData [0], RdData [0], RdData [0], RdData [0]]"

text \<open>
  A bring-up in which every call succeeds, followed by an upload in which every write is
  accepted in full, the chip answers 0x12 and 0x34 to the synchronisation pattern, 22
  drained bytes, the two confirmations 0x01 and the acknowledgment 0x00 0xAA.
\<close>

definition all_ok :: world where
  "all_ok =
     initial_world (bring_up_ok @ [4, 1, 1] @ [4, 0xF000, 1] @ drain_selects @ [1, 1] @ [1])
       ([RdData [0x12], RdData [0x34]] @ drain_reads @
        [RdData [0x01], RdData [0x01], RdData [0x00, 0xAA]])
       zero_bytes 0 zero_bytes"

text \<open>
  As \<open>all_ok\<close>, but the acknowledgment that ends the run is 0x00 0xFF instead of
  0x00 0xAA.
\<close>

definition wrong_final_ack :: world where
  "wrong_final_ack =
     initial_world (bring_up_ok @ [4, 1, 1] @ [4, 0xF000, 1] @ drain_selects @ [1, 1] @ [1])
       ([RdData [0x12], RdData [0x34]] @ drain_reads @
        [RdData [0x01], RdData [0x01], RdData [0x00, 0xFF]])
       zero_bytes 0 zero_bytes"

text \<open>
  The answers seen by \<open>send_PSI\<close> alone (called on descriptor 4). In the first world
  the first write of the payload fails with -1. In the second the first write of the
  payload accepts 0xEFFF bytes, one less than the 0xF000 offered, and the next write
  accepts all 0xF000 bytes offered to it. In the third every write is accepted in full
  and both confirmation bytes are 0x02.
\<close>

definition psi_write_fails :: world where
  "psi_write_fails =
     initial_world ([4, - 1, 1] @ drain_selects @ [1, 1])
       (drain_reads @ [RdData [0x01], RdData [0x01]]) zero_bytes 0 zero_bytes"

definition psi_partial_write :: world where
  "psi_partial_write =
     initial_world ([4, 0xEFFF, 0xF000, 1] @ drain_selects @ [1, 1])
       (drain_reads @ [RdData [0x01], RdData [0x01]]) zero_bytes 0 zero_bytes"

definition psi_wrong_confirmation :: world where
  "psi_wrong_confirmation =
     initial_world ([4, 0xF000, 1] @ drain_selects @ [1, 1])
       (drain_reads @ [RdData [0x02], RdData [0x02]]) zero_bytes 0 zero_bytes"

text \<open>
  The device refuses the header: the first write of \<open>send_PSI\<close> accepts no byte.
\<close>

definition psi_header_refused :: world where
  "psi_header_refused = initial_world [0] [] zero_bytes 0 zero_bytes"

text \<open>
  An image whose first byte is 0x5A and whose other bytes are zero; header, payload and
  checksum are accepted, then \<open>select\<close> fails.
\<close>

definition marked_bytes :: "nat \<Rightarrow> byte" where
  "marked_bytes = (\<lambda>i. if i = 0 then 0x5A else 0)"

definition psi_marked_image :: world where
  "psi_marked_image = initial_world [4, 0xF000, 1, - 1] [] marked_bytes 0 zero_bytes"

text \<open>
  Bring-up with a failing EHCI power-on. In the first world the EHCI file opens (as
  descriptor 6) but the write of the character \<open>'1'\<close> returns 0; in the second the
  EHCI file cannot be opened at power-on and the uninitialised \<open>ret\<close> happens to
  hold 0. In both the chip power-on and the link poll succeed, the synchronisation
  pattern is accepted, and the \<open>select\<close> before the first read fails.
\<close>

definition ehci_write_refused :: world where
  "ehci_write_refused =
     initial_world [3, 0, 0x40000000, 4, 5,  0, 0, 0, 6, 1,  0, 0, 6, 0, 0, 1,  4, - 1] []
       zero_bytes 0 zero_bytes"

definition ehci_open_fails :: world where
  "ehci_open_fails =
     initial_world [3, 0, 0x40000000, 4, 5,  0, 0, 0, 6, 1,  0, 0, - 1, 0, 1,  4, - 1] []
       zero_bytes 0 zero_bytes"

text \<open>
  After a successful bring-up the synchronisation pattern is accepted, but both reads
  of the handshake return 0: no byte arrives. The device then refuses the PSI header
  and the last \<open>select\<close> fails.
\<close>

definition no_ack_bytes :: world where
  "no_ack_bytes =
     initial_world (bring_up_ok @ [4, 0, 0, 0, - 1]) [RdData [], RdData []]
       zero_bytes 0 zero_bytes"

subsection \<open>Invariants of traces\<close>

text \<open>
  \<open>keeps img P m\<close>: started on a world whose image is \<open>img\<close>, the computation \<open>m\<close>
  leaves the image as it is and only appends events to the trace, each of which
  satisfies \<open>P\<close>.
\<close>

definition keeps :: "(nat \<Rightarrow> byte) \<Rightarrow> (event \<Rightarrow> bool) \<Rightarrow> 'a io \<Rightarrow> bool" where
  "keeps img P m \<longleftrightarrow>
     (\<forall>w x w'. image w = img \<longrightarrow> m w = Some (x, w') \<longrightarrow>
        image w' = img \<and> (\<exists>evs. trace w' = trace w @ evs \<and> list_all P evs))"

text \<open>Every event but a write of literal bytes.\<close>

fun plain :: "event \<Rightarrow> bool" where
  "plain (Write f (Bytes bs) n r) = False"
| "plain e = True"

text \<open>A write of a single literal byte carries the byte \<open>c\<close>.\<close>

fun checksum_ok :: "byte \<Rightarrow> event \<Rightarrow> bool" where
  "checksum_ok c (Write f (Bytes [b]) n r) = (b = c)"
| "checksum_ok c e = True"

text \<open>A write of literal bytes with count 4 carries the bytes 30 00 F0 00.\<close>

fun header_ok :: "event \<Rightarrow> bool" where
  "header_ok (Write f (Bytes bs) n r) = (if n = 4 then bs = [0x30, 0x00, 0xF0, 0x00] else True)"
| "header_ok e = True"

text \<open>Every event but a call of \<open>write\<close>.\<close>

fun no_write :: "event \<Rightarrow> bool" where
  "no_write (Write f src n r) = False"
| "no_write e = True"

text \<open>A call of \<open>write\<close> on the given descriptor whose buffer lies in the radio image.\<close>

fun is_payload_write :: "int \<Rightarrow> event \<Rightarrow> bool" where
  "is_payload_write fd (Write f (Image s) n r) = (f = fd)"
| "is_payload_write fd e = False"

section \<open>Properties\<close>

lemmas io_defs = return_io_def bind_io_def then_io_def emit_def next_ret_def next_read_def
  get_def modify_def log_d_def log_e_def log_i_def

lemmas sys_defs = sys_open_def sys_fstat_def sys_mmap_def sys_ioctl_def sys_select_def
  sys_write_def sys_read_def sys_close_def sys_munmap_def usleep_def

lemmas helper_defs = c_ioctl_def read_select_def receive_def memcmp_def expect_data_def

lemmas dev_defs = i9100_ehci_setpower_def i9100_link_set_active_def xmm6260_setpower_def

lemmas main_defs = main_def main_body_def main_open_def main_disable_def main_init_def
  main_load_def main_cleanup_def

lemmas const_defs = initial_world_def MAP_FAILED_def RADIO_MAP_SIZE_def XMM_PSI_MAGIC_def
  ATAT_def zero_bytes_def psi_header_init_def psi_header_bytes_def

subsection \<open>The offset table and the mapping\<close>

text \<open>
  C8, as the code has it: for every component of the table except \<open>NVDATA\<close>, the end
  of the component, offset + length, lies within the \<open>RADIO_MAP_SIZE\<close> bytes that
  \<open>main\<close> maps.
\<close>

theorem radio_parts_within_map:
  "c \<noteq> NVDATA \<Longrightarrow>
   unat (offset (i9100_radio_parts c)) + unat (length_sz (i9100_radio_parts c))
     \<le> RADIO_MAP_SIZE"
  by (cases c) (simp_all add: RADIO_MAP_SIZE_def)

theorem radio_parts_within_map_witness:
  "FIRMWARE \<noteq> NVDATA \<and>
   unat (offset (i9100_radio_parts FIRMWARE)) + unat (length_sz (i9100_radio_parts FIRMWARE))
     \<le> RADIO_MAP_SIZE"
  using radio_parts_within_map [of FIRMWARE] by simp

text \<open>
  C8 as stated fails at \<open>NVDATA\<close>: its offset 0x6406e00 alone is beyond the 16 MiB of
  the mapping.
\<close>

theorem nvdata_outside_map:
  "\<not> unat (offset (i9100_radio_parts NVDATA)) + unat (length_sz (i9100_radio_parts NVDATA))
       \<le> RADIO_MAP_SIZE"
  by (simp add: RADIO_MAP_SIZE_def)

subsection \<open>Running the scenarios\<close>

lemma calculateCRC_loop_zero: "calculateCRC_loop (\<lambda>i. 0) p n 0 = 0"
  by (induction n arbitrary: p) simp_all

text \<open>
  The drain loop on 22 successful reads of one byte each: it consumes 22 answers of
  \<open>select\<close> and 22 of \<open>read\<close> and runs to its end.
\<close>

lemma psi_ack_loop_drains:
  "psi_ack_loop fd 0
     \<lparr>rets = 1 # 1 # 1 # 1 # 1 # 1 # 1 # 1 # 1 # 1 # 1 # 1 # 1 # 1 # 1 # 1 # 1 # 1 # 1 #
             1 # 1 # 1 # rs,
      reads = RdData [0] # RdData [0] # RdData [0] # RdData [0] # RdData [0] # RdData [0] #
              RdData [0] # RdData [0] # RdData [0] # RdData [0] # RdData [0] # RdData [0] #
              RdData [0] # RdData [0] # RdData [0] # RdData [0] # RdData [0] # RdData [0] #
              RdData [0] # RdData [0] # RdData [0] # RdData [0] # ds,
      image = img, junk_int = ji, junk_buf = jb, trace = t,
      link_fd = l, boot_fd = b, radio_fd = r, radio_data = p\<rparr>
   = Some (Fallthrough,
     \<lparr>rets = rs, reads = ds, image = img, junk_int = ji, junk_buf = jb,
      trace = t @ concat (replicate 22
                [Select fd 0 1, Log D ''%s: selected fd %d for %d'',
                 Read fd 1 (RdData [0]), Log D ''%02x '']),
      link_fd = l, boot_fd = b, radio_fd = r, radio_data = p\<rparr>)"
  by (simp add: io_defs sys_defs helper_defs eval_nat_numeral)

lemmas run_defs = send_PSI_def io_defs sys_defs helper_defs dev_defs const_defs
  drain_selects_def drain_reads_def bring_up_ok_def Let_def calculateCRC_def
  calculateCRC_loop_zero psi_ack_loop_drains

lemma all_ok_run: "map_option fst (main_body all_ok) = Some Fallthrough"
  by (simp add: all_ok_def main_defs run_defs)

subsection \<open>The exit status\<close>

lemma main_cleanup_total: "\<exists>w'. main_cleanup w = Some ((), w')"
  by (simp add: main_cleanup_def io_defs sys_defs)

text \<open>
  C10: whenever \<open>main\<close> returns, it returns 0; and it returns, with 0, whenever the
  statements before the label \<open>fail\<close> reach that label, by a jump (\<open>Goto_fail\<close>)
  or from the last statement (\<open>Fallthrough\<close>): the status does not tell the two apart.
\<close>

theorem main_exit_status:
  "(main w = Some (rc, w') \<longrightarrow> rc = 0) \<and>
   (main_body w = Some (f, w1) \<longrightarrow> (\<exists>w2. main w = Some (0, w2)))"
  using main_cleanup_total [of w1]
  by (auto simp: main_def bind_io_def then_io_def return_io_def split: option.splits)

theorem main_exit_status_witness:
  "(\<exists>w1 w2. main_body no_radio_image = Some (Goto_fail, w1) \<and>
       main no_radio_image = Some (0, w2)) \<and>
   (\<exists>w1 w2. main_body all_ok = Some (Fallthrough, w1) \<and> main all_ok = Some (0, w2))"
proof
  have "map_option fst (main_body no_radio_image) = Some Goto_fail"
    by (simp add: no_radio_image_def main_defs run_defs)
  then obtain w1 where b: "main_body no_radio_image = Some (Goto_fail, w1)"
    by (cases "main_body no_radio_image") auto
  from main_exit_status [of no_radio_image 0 w1 Goto_fail w1] b
  show "\<exists>w1 w2. main_body no_radio_image = Some (Goto_fail, w1) \<and>
          main no_radio_image = Some (0, w2)"
    by blast
next
  from all_ok_run obtain w1 where b: "main_body all_ok = Some (Fallthrough, w1)"
    by (cases "main_body all_ok") auto
  from main_exit_status [of all_ok 0 w1 Fallthrough w1] b
  show "\<exists>w1 w2. main_body all_ok = Some (Fallthrough, w1) \<and> main all_ok = Some (0, w2)"
    by blast
qed

subsection \<open>The payload loop\<close>

text \<open>
  C1 fails on the code in two ways. When the first write of the payload returns -1,
  the loop does not abort: the unsigned \<open>written\<close> is never below 0, the cursor wraps
  to 0xFFFFFFFF, the loop ends, the checksum is sent and \<open>send_PSI\<close> returns 0 without
  a single payload byte on the channel. When a write accepts 0xEFFF of the 0xF000 bytes,
  the next call offers 0xF000 bytes again (\<open>end - offset\<close>, not \<open>end - start\<close>) from
  index 0xEFFF on: 0x1DFFF payload bytes go out, reaching index 0x1DFFE of the image,
  beyond the range of the first-stage loader, which ends at 0xF000.
\<close>

theorem payload_loop_ignores_error_and_range:
  "map_option (\<lambda>(rc, w). (rc, filter (is_write_to 4) (trace w)))
     (send_PSI 4 psi_write_fails)
   = Some (0, [Write 4 (Bytes [0x30, 0x00, 0xF0, 0x00]) 4 4,
               Write 4 (Image 0) 0xF000 (- 1),
               Write 4 (Bytes [0]) 1 1]) \<and>
   map_option (\<lambda>(rc, w). (rc, filter (is_write_to 4) (trace w),
                  length (concat (map (payload_sent (image w)) (trace w)))))
     (send_PSI 4 psi_partial_write)
   = Some (0, [Write 4 (Bytes [0x30, 0x00, 0xF0, 0x00]) 4 4,
               Write 4 (Image 0) 0xF000 0xEFFF,
               Write 4 (Image 0xEFFF) 0xF000 0xF000,
               Write 4 (Bytes [0]) 1 1],
           0x1DFFF)"
  by (simp add: psi_write_fails_def psi_partial_write_def run_defs del: upt_rec_numeral)

subsection \<open>The confirmations and the final acknowledgment\<close>

text \<open>
  C2 fails on the code: with both confirmation bytes 0x02, \<open>expect_data\<close> sees the
  mismatch twice (it logs the byte received) and returns a positive \<open>memcmp\<close>
  result, which the test \<open>< 0\<close> in \<open>send_PSI\<close> lets pass: \<open>send_PSI\<close> returns 0.
\<close>

theorem confirmation_mismatch_accepted:
  "map_option (\<lambda>(rc, w). (rc, filter (\<lambda>e. e = Log D ''received %02x'') (trace w),
                  drop 92 (filter plain (trace w))))
     (send_PSI 4 psi_wrong_confirmation)
   = Some (0, [Log D ''received %02x'', Log D ''received %02x''],
           [Read 4 1 (RdData [0x02]), Log D ''received %02x'',
            Select 4 0 1, Log D ''%s: selected fd %d for %d'',
            Read 4 1 (RdData [0x02]), Log D ''received %02x''])"
  by (simp add: psi_wrong_confirmation_def run_defs)

text \<open>
  C3 fails on the code: when the last two bytes are 0x00 0xFF instead of 0x00 0xAA,
  \<open>main\<close> takes none of its jumps to \<open>fail\<close> and logs no error; control reaches the
  label from the last statement, as in a successful run.
\<close>

theorem wrong_final_ack_accepted:
  "map_option (\<lambda>(f, w). (f, filter is_error_log (trace w),
                  Read 4 2 (RdData [0x00, 0xFF]) \<in> set (trace w)))
     (main_body wrong_final_ack)
   = Some (Fallthrough, [], True)"
  by (simp add: wrong_final_ack_def main_defs run_defs)

subsection \<open>Bring-up and handshake\<close>

text \<open>
  C6 fails on the code: when the write that switches the EHCI power on returns 0,
  \<open>i9100_ehci_setpower\<close> logs the failure and returns 0; \<open>main\<close> tests \<open>< 0\<close>,
  goes on, and writes the synchronisation pattern to the boot channel (descriptor 4).
\<close>

theorem ehci_power_on_failure_not_fatal:
  "map_option (\<lambda>(f, w). (filter is_error_log (trace w), filter (is_write_to 4) (trace w)))
     (main_body ehci_write_refused)
   = Some ([Log E ''failed to set EHCI power'',
            Log E ''%s: failed to select the fd %d'',
            Log E ''failed to receive bootloader ACK''],
           [Write 4 (Bytes [0x41, 0x54, 0x41, 0x54]) 4 4])"
  by (simp add: ehci_write_refused_def main_defs run_defs)

text \<open>
  The same happens when the EHCI file cannot be opened and the uninitialised \<open>ret\<close>
  is not negative.
\<close>

lemma ehci_open_failure_returns_junk:
  "map_option (\<lambda>(f, w). (filter is_error_log (trace w), filter (is_write_to 4) (trace w)))
     (main_body ehci_open_fails)
   = Some ([Log E ''failed to open EHCI fd'',
            Log E ''%s: failed to select the fd %d'',
            Log E ''failed to receive bootloader ACK''],
           [Write 4 (Bytes [0x41, 0x54, 0x41, 0x54]) 4 4])"
  by (simp add: ehci_open_fails_def main_defs run_defs)

text \<open>
  C9 fails on the code: when both reads of the handshake return 0, no byte was
  obtained, yet \<open>main\<close> tests \<open>< 0\<close> and goes on to \<open>send_PSI\<close>, which writes the
  PSI header. No error is logged for the handshake (the errors below come from the
  final acknowledgment).
\<close>

theorem handshake_accepts_empty_reads:
  "map_option (\<lambda>(f, w). (filter is_error_log (trace w),
                  filter (\<lambda>e. is_write_to 4 e \<or> e = Read 4 1 (RdData [])) (trace w)))
     (main_body no_ack_bytes)
   = Some ([Log E ''%s: failed to select the fd %d'',
            Log E ''failed to receive data'',
            Log E ''failed to receive PSI ACK''],
           [Write 4 (Bytes [0x41, 0x54, 0x41, 0x54]) 4 4,
            Read 4 1 (RdData []), Read 4 1 (RdData []),
            Write 4 (Bytes [0x30, 0x00, 0xF0, 0x00]) 4 0])"
  by (simp add: no_ack_bytes_def main_defs run_defs)

subsection \<open>Cleanup\<close>

text \<open>
  C7 fails on the code: when the radio image cannot be opened, nothing has been
  acquired, but \<open>radio_data\<close>, \<open>link_fd\<close> and \<open>boot_fd\<close> still hold their initial
  zeros, which pass the tests \<open>!= MAP_FAILED\<close> and \<open>>= 0\<close>: the cleanup unmaps
  address 0 and closes descriptor 0 twice.
\<close>

theorem cleanup_releases_unacquired:
  "map_option (\<lambda>(rc, w). trace w) (main no_radio_image)
   = Some [Open ''/dev/block/mmcblk0p8'' (- 1), Log E ''failed to open radio firmware'',
           Munmap 0 16777216, Close 0, Close 0]"
  by (simp add: no_radio_image_def main_defs run_defs RADIO_IMAGE_def)

subsection \<open>What a computation appends to the trace\<close>

lemma keepsD:
  "keeps img P m \<Longrightarrow> image w = img \<Longrightarrow> m w = Some (x, w') \<Longrightarrow>
   image w' = img \<and> (\<exists>evs. trace w' = trace w @ evs \<and> list_all P evs)"
  unfolding keeps_def by blast

lemma keeps_return: "keeps img P (return_io x)"
  by (simp add: keeps_def return_io_def)

lemma keeps_bind:
  assumes m: "keeps img P m" and f: "\<And>x. keeps img P (f x)"
  shows "keeps img P (bind_io m f)"
  unfolding keeps_def
proof (intro allI impI)
  fix w y w'
  assume img: "image w = img" and run: "bind_io m f w = Some (y, w')"
  from run obtain x w1 where m1: "m w = Some (x, w1)" and f1: "f x w1 = Some (y, w')"
    by (auto simp: bind_io_def split: option.splits)
  from keepsD [OF m img m1] obtain evs1
    where i1: "image w1 = img" and t1: "trace w1 = trace w @ evs1" and p1: "list_all P evs1"
    by blast
  from keepsD [OF f i1 f1] obtain evs2
    where i2: "image w' = img" and t2: "trace w' = trace w1 @ evs2" and p2: "list_all P evs2"
    by blast
  from t1 t2 p1 p2 have "trace w' = trace w @ (evs1 @ evs2) \<and> list_all P (evs1 @ evs2)"
    by simp
  with i2 show "image w' = img \<and> (\<exists>evs. trace w' = trace w @ evs \<and> list_all P evs)"
    by blast
qed

lemma keeps_then: "keeps img P m \<Longrightarrow> keeps img P n \<Longrightarrow> keeps img P (then_io m n)"
  by (simp add: then_io_def keeps_bind)

lemma keeps_emit: "P e \<Longrightarrow> keeps img P (emit e)"
  by (simp add: keeps_def emit_def)

lemma keeps_next_ret: "keeps img P next_ret"
  by (auto simp: keeps_def next_ret_def split: list.splits)

lemma keeps_next_read: "keeps img P next_read"
  by (auto simp: keeps_def next_read_def split: list.splits)

lemma keeps_get: "keeps img P (get g)"
  by (simp add: keeps_def get_def)

lemma keeps_if: "keeps img P m \<Longrightarrow> keeps img P n \<Longrightarrow> keeps img P (if c then m else n)"
  by simp

lemma keeps_log:
  assumes "\<And>e. no_write e \<Longrightarrow> P e"
  shows "keeps img P (log_d fmt)" and "keeps img P (log_e fmt)" and "keeps img P (log_i fmt)"
  using assms by (simp_all add: log_d_def log_e_def log_i_def keeps_emit)

lemma keeps_sys_select:
  assumes "\<And>e. no_write e \<Longrightarrow> P e"
  shows "keeps img P (sys_select fd t)"
  unfolding sys_select_def
  by (intro keeps_bind keeps_then keeps_next_ret keeps_emit keeps_return assms) simp

lemma keeps_sys_read:
  assumes "\<And>e. no_write e \<Longrightarrow> P e"
  shows "keeps img P (sys_read fd n)"
  unfolding sys_read_def
  by (intro keeps_bind keeps_then keeps_next_read keeps_emit assms)
     (simp_all add: keeps_return split: rd.split)

lemma keeps_sys_write:
  assumes "\<And>r. P (Write fd src n r)"
  shows "keeps img P (sys_write fd src n)"
  unfolding sys_write_def Let_def
  by (intro keeps_bind keeps_then keeps_next_ret keeps_emit keeps_return assms)

lemma keeps_receive:
  assumes "\<And>e. no_write e \<Longrightarrow> P e"
  shows "keeps img P (receive fd n)"
  unfolding receive_def read_select_def
  by (intro keeps_bind keeps_if keeps_then keeps_return keeps_log keeps_sys_select
        keeps_sys_read assms)

lemma keeps_expect_data:
  assumes "\<And>e. no_write e \<Longrightarrow> P e"
  shows "keeps img P (expect_data fd data n)"
  unfolding expect_data_def Let_def case_prod_beta
  by (intro keeps_bind keeps_if keeps_then keeps_return keeps_log keeps_get keeps_receive
        assms)

lemma keeps_psi_ack_loop:
  assumes plainP: "\<And>e. no_write e \<Longrightarrow> P e"
  shows "keeps img P (psi_ack_loop fd i)"
  unfolding keeps_def
proof (intro allI impI)
  fix w x w'
  assume "image w = img" and "psi_ack_loop fd i w = Some (x, w')"
  then show "image w' = img \<and> (\<exists>evs. trace w' = trace w @ evs \<and> list_all P evs)"
  proof (induction fd i w arbitrary: x w' rule: psi_ack_loop.induct)
    case (1 fd i w)
    show ?case
    proof (cases "i < 22")
      case False
      with "1.prems" show ?thesis by simp
    next
      case True
      with "1.prems"(2) obtain r got w1 where rcv: "receive fd 1 w = Some ((r, got), w1)"
        by (auto split: option.splits)
      have kr: "keeps img P (receive fd 1)"
        by (rule keeps_receive) (rule plainP)
      from keepsD [OF kr "1.prems"(1) rcv] obtain evs1
        where i1: "image w1 = img" and t1: "trace w1 = trace w @ evs1" and p1: "list_all P evs1"
        by blast
      show ?thesis
      proof (cases "r < 1")
        case True
        with \<open>i < 22\<close> rcv "1.prems"(2)
        have "w' = w1\<lparr>trace := trace w1 @ [Log D ''failed to read ACK byte %d'']\<rparr>"
          by (auto simp: io_defs)
        with i1 t1 p1 plainP show ?thesis by simp
      next
        case False
        define w2 where "w2 = w1\<lparr>trace := trace w1 @ [Log D ''%02x '']\<rparr>"
        have lg: "log_d ''%02x '' w1 = Some ((), w2)"
          by (simp add: w2_def io_defs)
        from \<open>i < 22\<close> rcv False lg "1.prems"(2)
        have rec: "psi_ack_loop fd (i + 1) w2 = Some (x, w')"
          by simp
        have i2: "image w2 = img" using i1 by (simp add: w2_def)
        from "1.IH" [OF \<open>i < 22\<close> rcv refl refl False lg refl i2 rec]
        obtain evs2 where "image w' = img" "trace w' = trace w2 @ evs2" "list_all P evs2"
          by blast
        with t1 p1 plainP show ?thesis by (simp add: w2_def)
      qed
    qed
  qed
qed

lemma keeps_psi_write_loop:
  assumes imgP: "\<And>s n r. P (Write fd (Image s) n r)"
  shows "keeps img P (psi_write_loop fd off start e)"
  unfolding keeps_def
proof (intro allI impI)
  fix w x w'
  assume "image w = img" and "psi_write_loop fd off start e w = Some (x, w')"
  with imgP show "image w' = img \<and> (\<exists>evs. trace w' = trace w @ evs \<and> list_all P evs)"
  proof (induction fd off start e w arbitrary: x w' rule: psi_write_loop.induct)
    case (1 fd off start e w)
    note P_image = "1.prems"(1) and img = "1.prems"(2) and run = "1.prems"(3)
    show ?case
    proof (cases "start < e")
      case False
      with img run show ?thesis by simp
    next
      case True
      with run obtain r w1
        where wr: "sys_write fd (Image start) (e - off) w = Some (r, w1)"
        by (auto split: option.splits)
      have kw: "keeps img P (sys_write fd (Image start) (e - off))"
        by (rule keeps_sys_write) (rule P_image)
      from keepsD [OF kw img wr] obtain evs1
        where i1: "image w1 = img" and t1: "trace w1 = trace w @ evs1" and p1: "list_all P evs1"
        by blast
      have nonneg: "\<not> (word_of_int r :: size_t) < 0"
        by simp
      from True wr run
      have rec: "psi_write_loop fd off (start + word_of_int r) e w1 = Some (x, w')"
        by (simp add: Let_def)
      from "1.IH" [OF True wr refl refl nonneg P_image i1 rec]
      obtain evs2 where "image w' = img" "trace w' = trace w1 @ evs2" "list_all P evs2"
        by blast
      with t1 p1 show ?thesis by simp
    qed
  qed
qed

text \<open>
  The payload loop never jumps to \<open>fail\<close>: the unsigned \<open>written\<close> is never below 0.
\<close>

lemma psi_write_loop_falls_through:
  "psi_write_loop fd off start e w = Some (f, w') \<Longrightarrow> f = Fallthrough"
proof (induction fd off start e w arbitrary: f w' rule: psi_write_loop.induct)
  case (1 fd off start e w)
  show ?case
  proof (cases "start < e")
    case False
    with "1.prems" show ?thesis by simp
  next
    case True
    with "1.prems" obtain r w1
      where wr: "sys_write fd (Image start) (e - off) w = Some (r, w1)"
      by (auto split: option.splits)
    have nonneg: "\<not> (word_of_int r :: size_t) < 0"
      by simp
    from True wr "1.prems"
    have rec: "psi_write_loop fd off (start + word_of_int r) e w1 = Some (f, w')"
      by (simp add: Let_def)
    from "1.IH" [OF True wr refl refl nonneg rec] show ?thesis .
  qed
qed

lemma keeps_case_flow:
  "keeps img P a \<Longrightarrow> keeps img P b \<Longrightarrow>
   keeps img P (case f of Fallthrough \<Rightarrow> a | Goto_fail \<Rightarrow> b)"
  by (cases f) simp_all

lemma keeps_bind_crc:
  assumes f: "keeps img P (f (calculateCRC img off len))"
  shows "keeps img P (bind_io (get (\<lambda>w. calculateCRC (image w) off len)) f)"
  unfolding keeps_def
proof (intro allI impI)
  fix w x w'
  assume img: "image w = img"
    and run: "bind_io (get (\<lambda>w. calculateCRC (image w) off len)) f w = Some (x, w')"
  from run img have "f (calculateCRC img off len) w = Some (x, w')"
    by (simp add: bind_io_def get_def)
  from keepsD [OF f img this]
  show "image w' = img \<and> (\<exists>evs. trace w' = trace w @ evs \<and> list_all P evs)" .
qed

lemma psi_part: "length_sz (i9100_radio_parts PSI) = 0xF000" "offset (i9100_radio_parts PSI) = 0"
  by simp_all

lemma psi_header_on_wire:
  "psi_header_bytes (psi_header_init 0xF000) = [0x30, 0x00, 0xF0, 0x00]"
  by (simp add: psi_header_init_def psi_header_bytes_def XMM_PSI_MAGIC_def)

lemma keeps_send_PSI:
  assumes plainP: "\<And>e. no_write e \<Longrightarrow> P e"
    and img: "\<And>s n r. P (Write fd (Image s) n r)"
    and hdr: "\<And>r. P (Write fd (Bytes [0x30, 0x00, 0xF0, 0x00]) 4 r)"
    and crc: "\<And>r. P (Write fd (Bytes [calculateCRC img 0 0xF000]) 1 r)"
  shows "keeps img P (send_PSI fd)"
  unfolding send_PSI_def Let_def psi_part psi_header_on_wire
  by (intro keeps_bind_crc keeps_bind keeps_then keeps_if keeps_case_flow keeps_return
        keeps_log keeps_psi_write_loop keeps_psi_ack_loop keeps_expect_data keeps_sys_write
        plainP img hdr crc)

lemma no_write_checksum_ok: "no_write e \<Longrightarrow> checksum_ok c e"
  by (cases e) simp_all

lemma no_write_header_ok: "no_write e \<Longrightarrow> header_ok e"
  by (cases e) simp_all

lemma calculateCRC_loop_fold:
  "calculateCRC_loop data p n crc = fold (\<lambda>b c. c XOR b) (map data [p ..< p + n]) crc"
proof (induction n arbitrary: p crc)
  case 0
  show ?case by simp
next
  case (Suc n)
  have "[p ..< p + Suc n] = p # [Suc p ..< Suc p + n]"
    by (simp add: upt_conv_Cons)
  then show ?case
    using Suc.IH [of "Suc p" "crc XOR data p"] by simp
qed

lemma calculateCRC_xor:
  "calculateCRC data off len = xor_checksum (map data [unat off ..< unat off + unat len])"
  by (simp add: calculateCRC_def xor_checksum_def calculateCRC_loop_fold)


lemma calculateCRC_loop_rest_zero:
  "(\<And>i. p \<le> i \<Longrightarrow> data i = 0) \<Longrightarrow> calculateCRC_loop data p n crc = crc"
  by (induction n arbitrary: p crc) simp_all

lemma calculateCRC_marked_bytes: "calculateCRC marked_bytes 0 0xF000 = 0x5A"
proof -
  have n: "unat (0xF000 :: size_t) = Suc 61439" and z: "unat (0 :: size_t) = 0"
    by simp_all
  have step: "calculateCRC_loop marked_bytes 0 (Suc 61439) 0
              = calculateCRC_loop marked_bytes (Suc 0) 61439 (0 XOR marked_bytes 0)"
    by (rule calculateCRC_loop.simps(2))
  have first: "0 XOR marked_bytes 0 = 0x5A"
    by (simp add: marked_bytes_def)
  have rest: "calculateCRC_loop marked_bytes (Suc 0) 61439 0x5A = 0x5A"
    by (rule calculateCRC_loop_rest_zero) (simp add: marked_bytes_def)
  show ?thesis
    by (simp only: calculateCRC_def n z step first rest)
qed

text \<open>What a computation that returns has done, step by step.\<close>

lemma bind_io_SomeE:
  assumes "bind_io m f w = Some (y, w')"
  obtains x w1 where "m w = Some (x, w1)" and "f x w1 = Some (y, w')"
  using assms by (auto simp: bind_io_def split: option.splits)

lemma then_io_log_d:
  "then_io (log_d fmt) m w = m (w\<lparr>trace := trace w @ [Log D fmt]\<rparr>)"
  by (simp add: io_defs)

lemma sys_write_SomeD:
  "sys_write fd src n w = Some (r, w1) \<Longrightarrow>
   image w1 = image w \<and> trace w1 = trace w @ [Write fd src n r]"
  by (auto simp: sys_write_def io_defs Let_def split: list.splits)

text \<open>
  The shape of every run of \<open>send_PSI\<close> that returns: either the header write was not
  accepted in full and nothing else was done, or the header write was accepted, the
  payload loop made its writes from the image, then the checksum byte was written,
  and no write follows it.
\<close>

lemma send_PSI_trace_shape:
  assumes run: "send_PSI fd w = Some (rc, w')"
  shows "(\<exists>k. k \<noteq> 4 \<and> rc = k \<and>
            trace w' = trace w @ [Write fd (Bytes [0x30, 0x00, 0xF0, 0x00]) 4 k,
                                  Log D ''%s: failed to write header, ret %d'']) \<or>
         (\<exists>pay r rest.
            trace w' = trace w @ [Write fd (Bytes [0x30, 0x00, 0xF0, 0x00]) 4 4,
                                  Log D ''PSI image [%08x %08x %08x %08x]''] @ pay @
                       [Write fd (Bytes [calculateCRC (image w) 0 0xF000]) 1 r] @ rest \<and>
            list_all (is_payload_write fd) pay \<and> list_all no_write rest)"
proof -
  define tail :: "int \<Rightarrow> int io" where "tail = (\<lambda>ret.
    if ret < 1 then
      then_io (log_d ''failed to write CRC'') (return_io ret)
    else
      bind_io (psi_ack_loop fd 0) (\<lambda>f.
      case f of
        Goto_fail \<Rightarrow> return_io ret
      | Fallthrough \<Rightarrow>
      bind_io (expect_data fd [0x1] 1) (\<lambda>ret.
        if ret < 0 then
          then_io (log_d ''failed to wait for first ACK'') (return_io ret)
        else
      bind_io (expect_data fd [0x1] 1) (\<lambda>ret.
        if ret < 0 then
          then_io (log_d ''failed to wait for second ACK'') (return_io ret)
        else return_io 0))))"
  define body :: "int \<Rightarrow> int io" where "body = (\<lambda>ret.
    then_io (log_d ''PSI image [%08x %08x %08x %08x]'')
   (bind_io (psi_write_loop fd 0 0 0xF000) (\<lambda>f.
    case f of
      Goto_fail \<Rightarrow> return_io ret
    | Fallthrough \<Rightarrow>
    bind_io (get (\<lambda>w. calculateCRC (image w) 0 0xF000)) (\<lambda>crc.
    bind_io (sys_write fd (Bytes [crc]) 1) tail))))"
  have unf: "send_PSI fd =
    bind_io (sys_write fd (Bytes [0x30, 0x00, 0xF0, 0x00]) 4) (\<lambda>ret.
      if ret \<noteq> 4 then
        then_io (log_d ''%s: failed to write header, ret %d'') (return_io ret)
      else body ret)"
    unfolding send_PSI_def Let_def psi_part psi_header_on_wire body_def tail_def add_0_right
    by (rule refl)
  from run [unfolded unf] obtain k w1
    where hw: "sys_write fd (Bytes [0x30, 0x00, 0xF0, 0x00]) 4 w = Some (k, w1)"
      and k1: "(if k \<noteq> 4 then
                  then_io (log_d ''%s: failed to write header, ret %d'') (return_io k)
                else body k) w1 = Some (rc, w')"
    by (rule bind_io_SomeE)
  from sys_write_SomeD [OF hw]
  have i1: "image w1 = image w"
    and t1: "trace w1 = trace w @ [Write fd (Bytes [0x30, 0x00, 0xF0, 0x00]) 4 k]"
    by simp_all
  show ?thesis
  proof (cases "k = 4")
    case False
    with k1 have "rc = k"
      and "trace w' = trace w1 @ [Log D ''%s: failed to write header, ret %d'']"
      by (auto simp: io_defs)
    with False t1 show ?thesis
      by simp
  next
    case True
    define w2 where "w2 = w1\<lparr>trace := trace w1 @ [Log D ''PSI image [%08x %08x %08x %08x]'']\<rparr>"
    have i2: "image w2 = image w"
      and t2: "trace w2 = trace w @ [Write fd (Bytes [0x30, 0x00, 0xF0, 0x00]) 4 4,
                                     Log D ''PSI image [%08x %08x %08x %08x]'']"
      using i1 t1 True by (simp_all add: w2_def)
    from k1 True have "body 4 w1 = Some (rc, w')"
      by simp
    then have "bind_io (psi_write_loop fd 0 0 0xF000) (\<lambda>f.
        case f of
          Goto_fail \<Rightarrow> return_io 4
        | Fallthrough \<Rightarrow>
        bind_io (get (\<lambda>w. calculateCRC (image w) 0 0xF000)) (\<lambda>crc.
        bind_io (sys_write fd (Bytes [crc]) 1) tail)) w2 = Some (rc, w')"
      unfolding body_def then_io_log_d w2_def .
    then obtain f w3
      where loop: "psi_write_loop fd 0 0 0xF000 w2 = Some (f, w3)"
        and k2: "(case f of
                    Goto_fail \<Rightarrow> return_io 4
                  | Fallthrough \<Rightarrow>
                  bind_io (get (\<lambda>w. calculateCRC (image w) 0 0xF000)) (\<lambda>crc.
                  bind_io (sys_write fd (Bytes [crc]) 1) tail)) w3 = Some (rc, w')"
      by (rule bind_io_SomeE)
    have kl: "keeps (image w2) (is_payload_write fd) (psi_write_loop fd 0 0 0xF000)"
      by (rule keeps_psi_write_loop) simp
    from keepsD [OF kl refl loop] i2 obtain pay
      where i3: "image w3 = image w" and t3: "trace w3 = trace w2 @ pay"
        and p3: "list_all (is_payload_write fd) pay"
      by auto
    from psi_write_loop_falls_through [OF loop] k2 i3
    have "bind_io (sys_write fd (Bytes [calculateCRC (image w) 0 0xF000]) 1) tail w3
          = Some (rc, w')"
      by (simp add: bind_io_def get_def)
    then obtain r w4
      where cw: "sys_write fd (Bytes [calculateCRC (image w) 0 0xF000]) 1 w3 = Some (r, w4)"
        and tl: "tail r w4 = Some (rc, w')"
      by (rule bind_io_SomeE)
    from sys_write_SomeD [OF cw]
    have t4: "trace w4 = trace w3 @ [Write fd (Bytes [calculateCRC (image w) 0 0xF000]) 1 r]"
      by simp
    have kt: "keeps (image w4) no_write (tail r)"
      unfolding tail_def
      by (intro keeps_if keeps_then keeps_bind keeps_case_flow keeps_return keeps_log
            keeps_psi_ack_loop keeps_expect_data)
    from keepsD [OF kt refl tl] obtain rest
      where t5: "trace w' = trace w4 @ rest" and p5: "list_all no_write rest"
      by blast
    from t2 t3 t4 t5 p3 p5 show ?thesis
      by auto
  qed
qed

subsection \<open>The checksum\<close>

text \<open>
  C5: \<open>calculateCRC\<close> is the running XOR of the specification over the bytes
  \<open>[offset, offset + length)\<close>. Whatever \<open>send_PSI\<close> writes as a single literal byte
  is that XOR over exactly the bytes of the first-stage loader in the image. Every run
  of \<open>send_PSI\<close> that returns either stopped at a header write that was not accepted
  in full, or it wrote the header, then made the writes of the payload loop, then wrote
  the one byte that is that XOR, and made no write after it. The XOR of the bytes 0x01,
  0x02, 0x03 is 0x00, for the specification's fold and for the code's loop.
\<close>

theorem checksum_is_running_xor:
  "calculateCRC data off len = xor_checksum (map data [unat off ..< unat off + unat len]) \<and>
   (send_PSI fd w = Some (rc, w') \<longrightarrow>
      (\<exists>evs. trace w' = trace w @ evs \<and>
         list_all (checksum_ok (xor_checksum (component_bytes (image w) PSI))) evs)) \<and>
   (send_PSI fd w = Some (rc, w') \<longrightarrow>
      (\<exists>k. k \<noteq> 4 \<and> rc = k \<and>
         trace w' = trace w @ [Write fd (Bytes [0x30, 0x00, 0xF0, 0x00]) 4 k,
                               Log D ''%s: failed to write header, ret %d'']) \<or>
      (\<exists>pay r rest.
         trace w' = trace w @ [Write fd (Bytes [0x30, 0x00, 0xF0, 0x00]) 4 4,
                               Log D ''PSI image [%08x %08x %08x %08x]''] @ pay @
                    [Write fd (Bytes [xor_checksum (component_bytes (image w) PSI)]) 1 r] @
                    rest \<and>
         list_all (is_payload_write fd) pay \<and> list_all no_write rest)) \<and>
   xor_checksum [0x01, 0x02, 0x03] = 0x00 \<and>
   calculateCRC
     (\<lambda>i. if i = 0 then 0x01 else if i = 1 then 0x02 else if i = 2 then 0x03 else 0xFF) 0 3
     = 0x00"
proof (intro conjI impI)
  show "calculateCRC data off len = xor_checksum (map data [unat off ..< unat off + unat len])"
    by (rule calculateCRC_xor)
next
  assume run: "send_PSI fd w = Some (rc, w')"
  let ?c = "xor_checksum (component_bytes (image w) PSI)"
  have c: "calculateCRC (image w) 0 0xF000 = ?c"
    by (simp only: calculateCRC_xor component_bytes_def psi_part)
  have "keeps (image w) (checksum_ok ?c) (send_PSI fd)"
    by (rule keeps_send_PSI) (simp_all add: no_write_checksum_ok c)
  from keepsD [OF this refl run]
  show "\<exists>evs. trace w' = trace w @ evs \<and> list_all (checksum_ok ?c) evs"
    by blast
next
  assume run: "send_PSI fd w = Some (rc, w')"
  have c: "calculateCRC (image w) 0 0xF000 = xor_checksum (component_bytes (image w) PSI)"
    by (simp only: calculateCRC_xor component_bytes_def psi_part)
  from send_PSI_trace_shape [OF run, unfolded c]
  show "(\<exists>k. k \<noteq> 4 \<and> rc = k \<and>
         trace w' = trace w @ [Write fd (Bytes [0x30, 0x00, 0xF0, 0x00]) 4 k,
                               Log D ''%s: failed to write header, ret %d'']) \<or>
      (\<exists>pay r rest.
         trace w' = trace w @ [Write fd (Bytes [0x30, 0x00, 0xF0, 0x00]) 4 4,
                               Log D ''PSI image [%08x %08x %08x %08x]''] @ pay @
                    [Write fd (Bytes [xor_checksum (component_bytes (image w) PSI)]) 1 r] @
                    rest \<and>
         list_all (is_payload_write fd) pay \<and> list_all no_write rest)" .
next
  show "xor_checksum [0x01, 0x02, 0x03] = 0x00"
    by (simp add: xor_checksum_def)
next
  have u: "unat (3 :: size_t) = 3" and z: "unat (0 :: size_t) = 0"
    by simp_all
  have "calculateCRC_loop
          (\<lambda>i. if i = 0 then 0x01 else if i = 1 then 0x02 else if i = 2 then 0x03 else 0xFF)
          0 3 0 = 0x00"
    by (simp add: numeral_3_eq_3)
  then show "calculateCRC
     (\<lambda>i. if i = 0 then 0x01 else if i = 1 then 0x02 else if i = 2 then 0x03 else 0xFF) 0 3
     = 0x00"
    by (simp only: calculateCRC_def u z)
qed

theorem checksum_is_running_xor_witness:
  "\<exists>rc w'. send_PSI 4 psi_marked_image = Some (rc, w') \<and>
      Write 4 (Bytes [0x5A]) 1 1 \<in> set (trace w') \<and>
      xor_checksum (component_bytes marked_bytes PSI) = 0x5A"
proof -
  define t where "t =
    [Write 4 (Bytes [0x30, 0x00, 0xF0, 0x00]) 4 4,
     Log D ''PSI image [%08x %08x %08x %08x]'',
     Write 4 (Image 0) 0xF000 0xF000,
     Write 4 (Bytes [0x5A]) 1 1,
     Select 4 0 (- 1),
     Log E ''%s: failed to select the fd %d'',
     Log D ''failed to read ACK byte %d'']"
  have "map_option (\<lambda>(rc, w). (rc, image w, trace w)) (send_PSI 4 psi_marked_image)
        = Some (1, marked_bytes, t)"
    by (simp add: psi_marked_image_def t_def send_PSI_def io_defs sys_defs helper_defs
          const_defs Let_def calculateCRC_marked_bytes)
  then obtain w' where run: "send_PSI 4 psi_marked_image = Some (1, w')"
    and tr: "trace w' = t"
    by (cases "send_PSI 4 psi_marked_image") auto
  have img: "image psi_marked_image = marked_bytes" and nil: "trace psi_marked_image = []"
    by (simp_all add: psi_marked_image_def initial_world_def)
  let ?c = "xor_checksum (component_bytes marked_bytes PSI)"
  note shape = checksum_is_running_xor [of "image psi_marked_image" 0 0 4 psi_marked_image 1 w',
      THEN conjunct2, THEN conjunct2, THEN conjunct1, THEN mp, OF run]
  from shape have "\<exists>r. Write 4 (Bytes [?c]) 1 r \<in> set t"
  proof (elim disjE exE conjE)
    fix k
    assume "trace w' = trace psi_marked_image @
             [Write 4 (Bytes [0x30, 0x00, 0xF0, 0x00]) 4 k,
              Log D ''%s: failed to write header, ret %d'']"
    with tr nil have "t = [Write 4 (Bytes [0x30, 0x00, 0xF0, 0x00]) 4 k,
                           Log D ''%s: failed to write header, ret %d'']"
      by simp
    then show ?thesis
      by (simp add: t_def)
  next
    fix pay r rest
    assume eq: "trace w' = trace psi_marked_image @
             [Write 4 (Bytes [0x30, 0x00, 0xF0, 0x00]) 4 4,
              Log D ''PSI image [%08x %08x %08x %08x]''] @ pay @
             [Write 4 (Bytes [xor_checksum (component_bytes (image psi_marked_image) PSI)]) 1 r] @
             rest"
    have "Write 4 (Bytes [xor_checksum (component_bytes (image psi_marked_image) PSI)]) 1 r
            \<in> set (trace w')"
      unfolding eq by simp
    with tr img have "Write 4 (Bytes [?c]) 1 r \<in> set t"
      by simp
    then show ?thesis ..
  qed
  then obtain r where "Write 4 (Bytes [?c]) 1 r \<in> set t" ..
  then have "?c = 0x5A"
    by (simp add: t_def)
  moreover have "Write 4 (Bytes [0x5A]) 1 1 \<in> set (trace w')"
    by (simp add: tr t_def)
  ultimately show ?thesis
    using run by blast
qed

subsection \<open>The PSI header\<close>

text \<open>
  C4, as the code has it: the header holds the magic 0x30, the low 16 bits of the
  length (the length modulo 65536) and a zero padding byte, so its length is 0xF000
  for the first-stage loader of the deployed table; there is no check and no failure:
  a length above 65535 is truncated. Every write of four literal bytes that
  \<open>send_PSI\<close> makes carries the bytes 30 00 F0 00.
\<close>

theorem psi_header_construction:
  "magic (psi_header_init len) = 0x30 \<and>
   unat (length_u16 (psi_header_init len)) = unat len mod 65536 \<and>
   padding (psi_header_init len) = 0 \<and>
   length_u16 (psi_header_init (length_sz (i9100_radio_parts PSI))) = 0xF000 \<and>
   (send_PSI fd w = Some (rc, w') \<longrightarrow>
      (\<exists>evs. trace w' = trace w @ evs \<and> list_all header_ok evs))"
proof (intro conjI impI)
  assume run: "send_PSI fd w = Some (rc, w')"
  have "keeps (image w) header_ok (send_PSI fd)"
    by (rule keeps_send_PSI) (simp_all add: no_write_header_ok)
  from keepsD [OF this refl run]
  show "\<exists>evs. trace w' = trace w @ evs \<and> list_all header_ok evs"
    by blast
qed (simp_all add: psi_header_init_def XMM_PSI_MAGIC_def unsigned_ucast_eq take_bit_eq_mod)

theorem psi_header_construction_witness:
  "\<exists>rc w'. send_PSI 4 psi_header_refused = Some (rc, w') \<and>
      trace w' = [Write 4 (Bytes [0x30, 0x00, 0xF0, 0x00]) 4 0,
                  Log D ''%s: failed to write header, ret %d''] \<and>
      list_all header_ok (trace w')"
proof -
  have "map_option (\<lambda>(rc, w). (rc, trace w)) (send_PSI 4 psi_header_refused)
        = Some (0, [Write 4 (Bytes [0x30, 0x00, 0xF0, 0x00]) 4 0,
                    Log D ''%s: failed to write header, ret %d''])"
    by (simp add: psi_header_refused_def send_PSI_def io_defs sys_defs const_defs Let_def)
  then obtain w' where run: "send_PSI 4 psi_header_refused = Some (0, w')"
    and tr: "trace w' = [Write 4 (Bytes [0x30, 0x00, 0xF0, 0x00]) 4 0,
                         Log D ''%s: failed to write header, ret %d'']"
    by (cases "send_PSI 4 psi_header_refused") auto
  have nil: "trace psi_header_refused = []"
    by (simp add: psi_header_refused_def initial_world_def)
  from psi_header_construction [of 0 4 psi_header_refused 0 w'] run
  obtain evs where "trace w' = trace psi_header_refused @ evs" and "list_all header_ok evs"
    by blast
  with nil have "list_all header_ok (trace w')"
    by simp
  with run tr show ?thesis
    by blast
qed

text \<open>
  C4 as stated fails for a length above 65535: for 0x19000, the length of the
  second-stage loader, construction does not fail but yields a header with the length
  0x9000.
\<close>

theorem psi_header_truncates_long_length:
  "(65535 :: size_t) < 0x19000 \<and>
   psi_header_init 0x19000 = \<lparr>magic = 0x30, length_u16 = 0x9000, padding = 0\<rparr>"
  by (simp add: psi_header_init_def XMM_PSI_MAGIC_def)

end
